theory Spec2Isabelle
  imports Main "HOL-Library.Sublist"
begin

section \<open>Values shared by the whole package\<close>

text \<open>
  A Go \<open>error\<close> is an interface value. The model identifies an error with its message:
  \<open>fmt.Errorf\<close> and \<open>errors.New\<close> build \<open>Error msg\<close>, and a nil error is \<open>None\<close> of
  \<open>error option\<close>.
\<close>

datatype error = Error string

text \<open>
  A call that panics does not return. \<open>NilPointerDereference\<close> is the run-time panic of
  reading a field through a nil pointer, \<open>UnexpectedOption\<close> is the explicit \<open>panic\<close> of
  \<open>New\<close>, \<open>OtherPanic\<close> is any panic raised by code the caller supplies.
\<close>

datatype panic = NilPointerDereference | UnexpectedOption | OtherPanic string

datatype 'a outcome = Return 'a | Panic panic

text \<open>
  Go strings and byte slices are sequences of bytes; both are \<open>string\<close> here.
\<close>

type_synonym bytes = string

subsection \<open>Readers and bodies\<close>

text \<open>
  Everything outside the package that a call can change (the network, the targets of JSON
  decoding, the state of streams) is one value of a type \<open>'w\<close>, threaded through every
  call. An \<open>io.Reader\<close> is one of: a \<open>*bytes.Reader\<close> over a byte slice (it has no
  \<open>Close\<close> method), some other reader without a \<open>Close\<close> method (named by a number), or a
  value that also implements \<open>io.ReadCloser\<close>. An \<open>io.ReadCloser\<close> is either a foreign
  one, given by what its \<open>Close\<close> method does, or the package's own wrapper
  \<open>&readCloser{r}\<close>.
\<close>

datatype 'w io_Reader =
    bytes_Reader bytes
  | plain_Reader nat
  | closing_Reader "'w io_ReadCloser"
and 'w io_ReadCloser =
    ReadCloser "'w \<Rightarrow> error option \<times> 'w"
  | readCloser "'w io_Reader"

text \<open>\<open>func (rc *readCloser) Close() error { return nil }\<close>; a foreign body runs its own
  method, which is taken to return.\<close>

fun Close :: "'w io_ReadCloser \<Rightarrow> 'w \<Rightarrow> error option \<times> 'w" where
  "Close (readCloser r) w = (None, w)"
| "Close (ReadCloser cl) w = cl w"

subsection \<open>Headers, URLs, requests and responses\<close>

text \<open>
  \<open>http.Header\<close> is \<open>map[string][]string\<close>. \<open>Set\<close>, \<open>Add\<close> and \<open>Get\<close> first bring the key
  into canonical MIME form; the only keys this package passes, \<open>Content-Type\<close> and
  \<open>Accept\<close>, are in that form already, so the three operations are modelled on canonical
  keys. Header maps are allocated, as \<open>http.NewRequestWithContext\<close> and the transport
  deliver them.
\<close>

type_synonym header = "string \<rightharpoonup> string list"

definition Header_Set :: "string \<Rightarrow> string \<Rightarrow> header \<Rightarrow> header" where
  "Header_Set key v h = h(key \<mapsto> [v])"

definition Header_Add :: "string \<Rightarrow> string \<Rightarrow> header \<Rightarrow> header" where
  "Header_Add key v h = h(key \<mapsto> (case h key of None \<Rightarrow> [v] | Some vs \<Rightarrow> vs @ [v]))"

definition Header_Get :: "string \<Rightarrow> header \<Rightarrow> string" where
  "Header_Get key h = (case h key of None \<Rightarrow> [] | Some [] \<Rightarrow> [] | Some (v # vs) \<Rightarrow> v)"

text \<open>The fields of \<open>url.URL\<close> that \<open>IsAbs\<close> reads, and the ones a parsed HTTP URL fills.\<close>

record url =
  Scheme :: string
  Host :: string
  Path :: string
  RawQuery :: string
  Fragment :: string

text \<open>\<open>func (u *URL) IsAbs() bool { return u.Scheme != "" }\<close>\<close>

definition IsAbs :: "url \<Rightarrow> bool" where
  "IsAbs u = (Scheme u \<noteq> [])"

text \<open>
  \<open>http.Request\<close> and \<open>http.Response\<close>, with the fields the package reads or writes.
  \<open>Body\<close> is an interface value and may be nil. Both records have a header and a body;
  the response's carry the prefix \<open>Response\<close>. \<open>ContentLength\<close> is an \<open>int64\<close> and
  \<open>StatusCode\<close> an \<open>int\<close>; the package only stores and compares them, so they are
  integers here.
\<close>

record 'w Request =
  Method :: string
  URL :: url
  Header :: header
  Body :: "'w io_ReadCloser option"
  ContentLength :: int

record 'w Response =
  StatusCode :: int
  ResponseHeader :: header
  ResponseBody :: "'w io_ReadCloser option"

section \<open>Interceptors (interceptors.go)\<close>

text \<open>
  \<open>InterceptRequest(r *http.Request) (*http.Request, error)\<close> and
  \<open>InterceptResponse(r *http.Response) (*http.Response, error)\<close>: the pointer received
  and the pointer returned may be nil, the call may change the world, and it may panic. A
  request or response that an interceptor changes in place and returns is the returned
  value here.
\<close>

type_synonym 'w RequestInterceptor =
  "'w Request option \<Rightarrow> 'w \<Rightarrow> ('w Request option \<times> error option) outcome \<times> 'w"

type_synonym 'w ResponseInterceptor =
  "'w Response option \<Rightarrow> 'w \<Rightarrow> ('w Response option \<times> error option) outcome \<times> 'w"

subsection \<open>ExpectedStatusCode\<close>

text \<open>The verb \<open>%d\<close> of \<open>fmt\<close> on an \<open>int\<close>: base ten, a minus sign on a negative number,
  no padding.\<close>

definition digitChar :: "nat \<Rightarrow> char" where
  "digitChar n = ''0123456789'' ! (n mod 10)"

function formatNat :: "nat \<Rightarrow> string" where
  "formatNat n = (if n < 10 then [digitChar n] else formatNat (n div 10) @ [digitChar (n mod 10)])"
  by pat_completeness auto
termination
  by (relation "measure id") auto

declare formatNat.simps [simp del]

definition formatInt :: "int \<Rightarrow> string" where
  "formatInt i = (if i < 0 then CHR ''-'' # formatNat (nat (- i)) else formatNat (nat i))"

text \<open>
  The loop \<open>for _, statusCode := range expectedStatusCodes\<close> of the interceptor, on a
  response that is not nil: it returns at the first code that equals the response's.
\<close>

fun statusCodeLoop :: "int list \<Rightarrow> 'w Response \<Rightarrow> 'w Response option \<times> error option" where
  "statusCodeLoop [] r =
     (Some r, Some (Error (''unexpected status code: '' @ formatInt (StatusCode r))))"
| "statusCodeLoop (statusCode # rest) r =
     (if StatusCode r = statusCode then (Some r, None) else statusCodeLoop rest r)"

text \<open>The function wrapped by \<open>ExpectedStatusCode\<close>. With no code to loop over it still
  reads \<open>r.StatusCode\<close> for the message, so a nil response panics in either case.\<close>

definition expectedStatusCode :: "int list \<Rightarrow> 'w ResponseInterceptor" where
  "expectedStatusCode expectedStatusCodes r w =
     (case r of
        None \<Rightarrow> (Panic NilPointerDereference, w)
      | Some res \<Rightarrow> (Return (statusCodeLoop expectedStatusCodes res), w))"

text \<open>The options that wrap these functions are defined with the client, below.\<close>

subsection \<open>withBody and WithJSON\<close>

text \<open>
  \<open>withBody(r, contentType, length)\<close>. A prior body that is not nil is closed first, and
  a failing \<open>Close\<close> returns the request as it was, with the error. A reader that is an
  \<open>io.ReadCloser\<close> becomes the body itself, any other is wrapped in \<open>readCloser\<close>.
\<close>

definition withBody :: "'w io_Reader \<Rightarrow> string \<Rightarrow> int \<Rightarrow> 'w RequestInterceptor" where
  "withBody r contentType len req w =
     (case req of
        None \<Rightarrow> (Panic NilPointerDereference, w)
      | Some rq \<Rightarrow>
          (case (case Body rq of None \<Rightarrow> (None, w) | Some b \<Rightarrow> Close b w) of
             (Some err, w') \<Rightarrow> (Return (Some rq, Some err), w')
           | (None, w') \<Rightarrow>
               (Return
                  (Some (rq\<lparr>Body := Some (case r of closing_Reader c \<Rightarrow> c | _ \<Rightarrow> readCloser r),
                             Header := Header_Set ''Content-Type'' contentType (Header rq),
                             ContentLength := len\<rparr>),
                   None), w')))"

text \<open>
  The function wrapped by \<open>WithJSON(value)\<close>. \<open>json.Marshal\<close> is the parameter
  \<open>marshal\<close>, returning the bytes and the error as Go does. \<open>len(b)\<close> is an \<open>int\<close> that is
  never negative, so \<open>int64(len(b))\<close> is the length itself.
\<close>

definition withJSON ::
  "('v \<Rightarrow> bytes \<times> error option) \<Rightarrow> 'v \<Rightarrow> 'w RequestInterceptor" where
  "withJSON marshal v r w =
     (case marshal v of
        (b, Some err) \<Rightarrow> (Return (r, Some err), w)
      | (b, None) \<Rightarrow> withBody (bytes_Reader b) ''application/json'' (int (length b)) r w)"

subsection \<open>forJSON\<close>

text \<open>\<open>func (*forJSON) InterceptRequest\<close>: adds an \<open>Accept\<close> header.\<close>

definition forJSON_InterceptRequest :: "'w RequestInterceptor" where
  "forJSON_InterceptRequest r w =
     (case r of
        None \<Rightarrow> (Panic NilPointerDereference, w)
      | Some rq \<Rightarrow>
          (Return (Some (rq\<lparr>Header := Header_Add ''Accept'' ''application/json'' (Header rq)\<rparr>),
                   None), w))"

text \<open>
  \<open>func (jr *forJSON) InterceptResponse\<close>. \<open>io.ReadAll\<close> and \<open>json.Unmarshal\<close> are the
  parameters \<open>readAll\<close> and \<open>unmarshal\<close>; the second writes through the pointer
  \<open>jr.value\<close>, which is a change of the world.
\<close>

definition forJSON_InterceptResponse ::
  "('w io_ReadCloser \<Rightarrow> 'w \<Rightarrow> (bytes \<times> error option) \<times> 'w) \<Rightarrow>
   (bytes \<Rightarrow> 'v \<Rightarrow> 'w \<Rightarrow> error option \<times> 'w) \<Rightarrow> 'v \<Rightarrow> 'w ResponseInterceptor" where
  "forJSON_InterceptResponse readAll unmarshal v r w =
     (case r of
        None \<Rightarrow> (Panic NilPointerDereference, w)
      | Some res \<Rightarrow>
          (let ct = Header_Get ''Content-Type'' (ResponseHeader res) in
           if \<not> prefix ''application/json'' ct
           then (Return (Some res, Some (Error (''expected JSON response but got '' @ ct))), w)
           else
             (case ResponseBody res of
                None \<Rightarrow> (Panic NilPointerDereference, w)
              | Some b \<Rightarrow>
                  (case readAll b w of
                     ((d, Some err), w') \<Rightarrow> (Return (Some res, Some err), w')
                   | ((d, None), w') \<Rightarrow>
                       (case unmarshal d v w' of (e, w'') \<Rightarrow> (Return (Some res, e), w''))))))"

subsection \<open>WithURLPrefix\<close>

text \<open>
  The function wrapped by \<open>WithURLPrefix(prefix)\<close>. \<open>url.Parse\<close> and \<open>(*URL).String\<close>
  are the parameters \<open>parse\<close> and \<open>urlString\<close>.
\<close>

definition withURLPrefix ::
  "(string \<Rightarrow> error + url) \<Rightarrow> (url \<Rightarrow> string) \<Rightarrow> string \<Rightarrow> 'w RequestInterceptor" where
  "withURLPrefix parse urlString pre r w =
     (case r of
        None \<Rightarrow> (Panic NilPointerDereference, w)
      | Some rq \<Rightarrow>
          (if \<not> IsAbs (URL rq)
           then (case parse (pre @ urlString (URL rq)) of
                   Inl err \<Rightarrow> (Return (Some rq, Some err), w)
                 | Inr u \<Rightarrow> (Return (Some (rq\<lparr>URL := u\<rparr>), None), w))
           else (Return (Some rq, None), w)))"

section \<open>Options and the client (client.go)\<close>

text \<open>
  \<open>http.Client\<close> with the one field the package sets. \<open>(*http.Client).Do\<close> belongs to
  \<open>net/http\<close>; it is the parameter \<open>httpDo\<close> of \<open>Do\<close> below, and is what the
  specification calls the transport.
\<close>

type_synonym 'w RoundTripper =
  "'w Request \<Rightarrow> 'w \<Rightarrow> ('w Response option \<times> error option) outcome \<times> 'w"

record 'w http_Client =
  Transport :: "'w RoundTripper option"

type_synonym 'w http_Do =
  "'w http_Client \<Rightarrow> 'w Request option \<Rightarrow> 'w \<Rightarrow>
   ('w Response option \<times> error option) outcome \<times> 'w"

text \<open>
  An option is an interface value; \<open>New\<close> and \<open>Do\<close> look only at its dynamic type. That
  type is either \<open>HTTPClientOption\<close>, a function on the \<open>http.Client\<close> with no other
  method (it is taken to do nothing but change the \<open>http.Client\<close>), or some other type,
  described by the interceptor methods it has: the first field is its \<open>InterceptRequest\<close>
  when it is a \<open>RequestInterceptor\<close>, the second its \<open>InterceptResponse\<close> when it is a
  \<open>ResponseInterceptor\<close>. \<open>Interceptors None None\<close> is a value with neither method, the
  nil interface among them.
\<close>

datatype 'w opt =
    HTTPClientOption "'w http_Client \<Rightarrow> 'w http_Client"
  | Interceptors "'w RequestInterceptor option" "'w ResponseInterceptor option"

text \<open>The type assertions \<open>opt.(RequestInterceptor)\<close> and \<open>opt.(ResponseInterceptor)\<close>.\<close>

fun asRequestInterceptor :: "'w opt \<Rightarrow> 'w RequestInterceptor option" where
  "asRequestInterceptor (HTTPClientOption f) = None"
| "asRequestInterceptor (Interceptors rq rs) = rq"

fun asResponseInterceptor :: "'w opt \<Rightarrow> 'w ResponseInterceptor option" where
  "asResponseInterceptor (HTTPClientOption f) = None"
| "asResponseInterceptor (Interceptors rq rs) = rs"

text \<open>The constructors of the package. \<open>RequestInterceptorOption\<close> embeds only a
  \<open>RequestInterceptor\<close> and \<open>ResponseInterceptorOption\<close> only a \<open>ResponseInterceptor\<close>;
  \<open>*forJSON\<close> has both methods.\<close>

definition WithTransport :: "'w RoundTripper option \<Rightarrow> 'w opt" where
  "WithTransport t = HTTPClientOption (\<lambda>h. h\<lparr>Transport := t\<rparr>)"

definition WithRequestInterceptor :: "'w RequestInterceptor \<Rightarrow> 'w opt" where
  "WithRequestInterceptor r = Interceptors (Some r) None"

definition WithRequestInterceptorFunc :: "'w RequestInterceptor \<Rightarrow> 'w opt" where
  "WithRequestInterceptorFunc f = Interceptors (Some f) None"

definition WithResponseInterceptor :: "'w ResponseInterceptor \<Rightarrow> 'w opt" where
  "WithResponseInterceptor r = Interceptors None (Some r)"

definition WithResponseInterceptorFunc :: "'w ResponseInterceptor \<Rightarrow> 'w opt" where
  "WithResponseInterceptorFunc f = Interceptors None (Some f)"

definition WithBody :: "'w io_Reader \<Rightarrow> string \<Rightarrow> int \<Rightarrow> 'w opt" where
  "WithBody r contentType len = WithRequestInterceptorFunc (withBody r contentType len)"

definition WithJSON :: "('v \<Rightarrow> bytes \<times> error option) \<Rightarrow> 'v \<Rightarrow> 'w opt" where
  "WithJSON marshal v = WithRequestInterceptorFunc (withJSON marshal v)"

definition ExpectedStatusCode :: "int list \<Rightarrow> 'w opt" where
  "ExpectedStatusCode expectedStatusCodes =
     WithResponseInterceptorFunc (expectedStatusCode expectedStatusCodes)"

definition ForJSON ::
  "('w io_ReadCloser \<Rightarrow> 'w \<Rightarrow> (bytes \<times> error option) \<times> 'w) \<Rightarrow>
   (bytes \<Rightarrow> 'v \<Rightarrow> 'w \<Rightarrow> error option \<times> 'w) \<Rightarrow> 'v \<Rightarrow> 'w opt" where
  "ForJSON readAll unmarshal v =
     Interceptors (Some forJSON_InterceptRequest)
                  (Some (forJSON_InterceptResponse readAll unmarshal v))"

definition WithURLPrefix ::
  "(string \<Rightarrow> error + url) \<Rightarrow> (url \<Rightarrow> string) \<Rightarrow> string \<Rightarrow> 'w opt" where
  "WithURLPrefix parse urlString pre = WithRequestInterceptorFunc (withURLPrefix parse urlString pre)"

subsection \<open>New\<close>

record 'w Client =
  c :: "'w http_Client"
  reqInterceptors :: "'w RequestInterceptor list"
  resInterceptors :: "'w ResponseInterceptor list"

text \<open>
  The loop of \<open>New\<close> over its options. A Go type switch runs the first case that matches
  and no other: the cases are tried in the order \<open>HTTPClientOption\<close>,
  \<open>RequestInterceptor\<close>, \<open>ResponseInterceptor\<close>, \<open>default\<close>.
\<close>

fun New_loop :: "'w Client \<Rightarrow> 'w opt list \<Rightarrow> 'w Client outcome" where
  "New_loop cl [] = Return cl"
| "New_loop cl (HTTPClientOption f # opts) = New_loop (cl\<lparr>c := f (c cl)\<rparr>) opts"
| "New_loop cl (Interceptors (Some i) rs # opts) =
     New_loop (cl\<lparr>reqInterceptors := reqInterceptors cl @ [i]\<rparr>) opts"
| "New_loop cl (Interceptors None (Some i) # opts) =
     New_loop (cl\<lparr>resInterceptors := resInterceptors cl @ [i]\<rparr>) opts"
| "New_loop cl (Interceptors None None # opts) = Panic UnexpectedOption"

definition New :: "'w opt list \<Rightarrow> 'w Client outcome" where
  "New opts = New_loop \<lparr>c = \<lparr>Transport = None\<rparr>, reqInterceptors = [], resInterceptors = []\<rparr> opts"

subsection \<open>Do\<close>

text \<open>
  What a loop of \<open>Do\<close> ends with: it falls through to the next statement with the current
  request or response, it makes \<open>Do\<close> return a pair, or an interceptor panics.
\<close>

datatype ('x, 'r) flow = Continue 'x | Returning 'r | Panicking panic

type_synonym 'w result = "'w Response option \<times> error option"

text \<open>Lines 90 to 95: \<open>for _, i := range c.reqInterceptors\<close>.\<close>

fun Do_reqInterceptors ::
  "'w RequestInterceptor list \<Rightarrow> 'w Request option \<Rightarrow> 'w \<Rightarrow>
   ('w Request option, 'w result) flow \<times> 'w" where
  "Do_reqInterceptors [] req w = (Continue req, w)"
| "Do_reqInterceptors (i # rest) req w =
     (case i req w of
        (Panic p, w') \<Rightarrow> (Panicking p, w')
      | (Return (req', Some err), w') \<Rightarrow> (Returning (None, Some err), w')
      | (Return (req', None), w') \<Rightarrow> Do_reqInterceptors rest req' w')"

text \<open>Lines 97 to 104: \<open>for _, opt := range opts\<close>, request side.\<close>

fun Do_reqOpts ::
  "'w opt list \<Rightarrow> 'w Request option \<Rightarrow> 'w \<Rightarrow> ('w Request option, 'w result) flow \<times> 'w" where
  "Do_reqOpts [] req w = (Continue req, w)"
| "Do_reqOpts (opt # rest) req w =
     (case asRequestInterceptor opt of
        None \<Rightarrow> Do_reqOpts rest req w
      | Some i \<Rightarrow>
          (case i req w of
             (Panic p, w') \<Rightarrow> (Panicking p, w')
           | (Return (req', Some err), w') \<Rightarrow> (Returning (None, Some err), w')
           | (Return (req', None), w') \<Rightarrow> Do_reqOpts rest req' w'))"

text \<open>Lines 112 to 119: \<open>for _, opt := range opts\<close>, response side.\<close>

fun Do_resOpts ::
  "'w opt list \<Rightarrow> 'w Response option \<Rightarrow> 'w \<Rightarrow> ('w Response option, 'w result) flow \<times> 'w" where
  "Do_resOpts [] res w = (Continue res, w)"
| "Do_resOpts (opt # rest) res w =
     (case asResponseInterceptor opt of
        None \<Rightarrow> Do_resOpts rest res w
      | Some i \<Rightarrow>
          (case i res w of
             (Panic p, w') \<Rightarrow> (Panicking p, w')
           | (Return (res', Some err), w') \<Rightarrow> (Returning (res', Some err), w')
           | (Return (res', None), w') \<Rightarrow> Do_resOpts rest res' w'))"

text \<open>Lines 121 to 126: \<open>for _, i := range c.resInterceptors\<close>.\<close>

fun Do_resInterceptors ::
  "'w ResponseInterceptor list \<Rightarrow> 'w Response option \<Rightarrow> 'w \<Rightarrow>
   ('w Response option, 'w result) flow \<times> 'w" where
  "Do_resInterceptors [] res w = (Continue res, w)"
| "Do_resInterceptors (i # rest) res w =
     (case i res w of
        (Panic p, w') \<Rightarrow> (Panicking p, w')
      | (Return (res', Some err), w') \<Rightarrow> (Returning (res', Some err), w')
      | (Return (res', None), w') \<Rightarrow> Do_resInterceptors rest res' w')"

text \<open>Lines 112 to 128, the statements of \<open>Do\<close> after the \<open>defer\<close>.\<close>

definition Do_afterDefer ::
  "'w Client \<Rightarrow> 'w opt list \<Rightarrow> 'w Response option \<Rightarrow> 'w \<Rightarrow> 'w result outcome \<times> 'w" where
  "Do_afterDefer cl opts res w =
     (case Do_resOpts opts res w of
        (Panicking p, w1) \<Rightarrow> (Panic p, w1)
      | (Returning ret, w1) \<Rightarrow> (Return ret, w1)
      | (Continue res1, w1) \<Rightarrow>
          (case Do_resInterceptors (resInterceptors cl) res1 w1 of
             (Panicking p, w2) \<Rightarrow> (Panic p, w2)
           | (Returning ret, w2) \<Rightarrow> (Return ret, w2)
           | (Continue res2, w2) \<Rightarrow> (Return (res2, None), w2)))"

text \<open>
  \<open>Do\<close>. The \<open>defer\<close> statement stands after the return on a transport error, so that
  return closes nothing. It evaluates \<open>res.Body\<close> when it is reached: the body closed at
  the end is the one the transport returned, whatever the interceptors do to \<open>res\<close>, and
  a nil \<open>res\<close> or a nil body panics there. The deferred call runs when the rest of the
  function returns or panics; its error is dropped.
\<close>

definition Do ::
  "'w http_Do \<Rightarrow> 'w Client \<Rightarrow> 'w Request option \<Rightarrow> 'w opt list \<Rightarrow> 'w \<Rightarrow>
   'w result outcome \<times> 'w" where
  "Do httpDo cl req opts w =
     (case Do_reqInterceptors (reqInterceptors cl) req w of
        (Panicking p, w1) \<Rightarrow> (Panic p, w1)
      | (Returning ret, w1) \<Rightarrow> (Return ret, w1)
      | (Continue req1, w1) \<Rightarrow>
     (case Do_reqOpts opts req1 w1 of
        (Panicking p, w2) \<Rightarrow> (Panic p, w2)
      | (Returning ret, w2) \<Rightarrow> (Return ret, w2)
      | (Continue req2, w2) \<Rightarrow>
     (case httpDo (c cl) req2 w2 of
        (Panic p, w3) \<Rightarrow> (Panic p, w3)
      | (Return (res, Some err), w3) \<Rightarrow> (Return (res, Some err), w3)
      | (Return (None, None), w3) \<Rightarrow> (Panic NilPointerDereference, w3)
      | (Return (Some r, None), w3) \<Rightarrow>
     (case ResponseBody r of
        None \<Rightarrow> (Panic NilPointerDereference, w3)
      | Some body \<Rightarrow>
          (case Do_afterDefer cl opts (Some r) w3 of
             (out, w4) \<Rightarrow> (out, snd (Close body w4)))))))"

subsection \<open>Execute, Get and Post\<close>

text \<open>
  \<open>http.NewRequestWithContext(ctx, method, url, nil)\<close> is the parameter
  \<open>newRequest\<close>: it returns an error, or a request that is not nil.
\<close>

definition Execute ::
  "('ctx \<Rightarrow> string \<Rightarrow> string \<Rightarrow> error + 'w Request) \<Rightarrow> 'w http_Do \<Rightarrow> 'w Client \<Rightarrow>
   'ctx \<Rightarrow> string \<Rightarrow> string \<Rightarrow> 'w opt list \<Rightarrow> 'w \<Rightarrow> 'w result outcome \<times> 'w" where
  "Execute newRequest httpDo cl ctx method u opts w =
     (case newRequest ctx method u of
        Inl err \<Rightarrow> (Return (None, Some err), w)
      | Inr req \<Rightarrow> Do httpDo cl (Some req) opts w)"

definition Get ::
  "('ctx \<Rightarrow> string \<Rightarrow> string \<Rightarrow> error + 'w Request) \<Rightarrow> 'w http_Do \<Rightarrow> 'w Client \<Rightarrow>
   'ctx \<Rightarrow> string \<Rightarrow> 'w opt list \<Rightarrow> 'w \<Rightarrow> 'w result outcome \<times> 'w" where
  "Get newRequest httpDo cl ctx u opts w = Execute newRequest httpDo cl ctx ''GET'' u opts w"

definition Post ::
  "('ctx \<Rightarrow> string \<Rightarrow> string \<Rightarrow> error + 'w Request) \<Rightarrow> 'w http_Do \<Rightarrow> 'w Client \<Rightarrow>
   'ctx \<Rightarrow> string \<Rightarrow> 'w opt list \<Rightarrow> 'w \<Rightarrow> 'w result outcome \<times> 'w" where
  "Post newRequest httpDo cl ctx u opts w = Execute newRequest httpDo cl ctx ''POST'' u opts w"


section \<open>The pipeline as the specification words it\<close>

text \<open>
  One phase of the specification: the interceptors of an ordered sequence are invoked one
  after the other, each on the value its predecessor returned, and the phase stops at
  the first that returns an error or panics. The result is what the last interceptor
  invoked returned, in the world it left.
\<close>

fun invokeInOrder ::
  "('a \<Rightarrow> 'w \<Rightarrow> ('a \<times> error option) outcome \<times> 'w) list \<Rightarrow> 'a \<Rightarrow> 'w \<Rightarrow>
   ('a \<times> error option) outcome \<times> 'w" where
  "invokeInOrder [] x w = (Return (x, None), w)"
| "invokeInOrder (i # rest) x w =
     (case i x w of
        (Return (x', None), w') \<Rightarrow> invokeInOrder rest x' w'
      | stopped \<Rightarrow> stopped)"

text \<open>The request-capable and the response-capable members of the call-level options,
  in the order passed.\<close>

definition requestCapable :: "'w opt list \<Rightarrow> 'w RequestInterceptor list" where
  "requestCapable opts = List.map_filter asRequestInterceptor opts"

definition responseCapable :: "'w opt list \<Rightarrow> 'w ResponseInterceptor list" where
  "responseCapable opts = List.map_filter asResponseInterceptor opts"

text \<open>What the type switch of \<open>New\<close> appends to the response sequence for an option:
  its response interceptor, when the option is no request interceptor.\<close>

fun responseOnly :: "'w opt \<Rightarrow> 'w ResponseInterceptor option" where
  "responseOnly (Interceptors None (Some s)) = Some s"
| "responseOnly other = None"

section \<open>Test doubles\<close>

text \<open>
  Interceptors, a transport and a body over a world that is a log of names, in the manner
  of a recording test double. A tagging request interceptor writes its name to the log and
  appends it to the request's method; a tagging response interceptor writes its name and
  shifts a digit into the status code; the failing ones write their name and return an
  error. The logging transport logs the method it receives and answers with status \<open>0\<close>
  and a body whose \<open>Close\<close> logs \<open>close\<close>; the redirecting transport does the same with
  status \<open>302\<close> and a \<open>Location\<close> header.
\<close>

definition tagReq :: "string \<Rightarrow> string list RequestInterceptor" where
  "tagReq name r w =
     (Return (map_option (\<lambda>rq. rq\<lparr>Method := Method rq @ name\<rparr>) r, None), w @ [name])"

definition failReq :: "string \<Rightarrow> error \<Rightarrow> string list RequestInterceptor" where
  "failReq name err r w = (Return (r, Some err), w @ [name])"

definition tagRes :: "string \<Rightarrow> int \<Rightarrow> string list ResponseInterceptor" where
  "tagRes name k r w =
     (Return (map_option (\<lambda>rs. rs\<lparr>StatusCode := 10 * StatusCode rs + k\<rparr>) r, None), w @ [name])"

definition failRes :: "string \<Rightarrow> error \<Rightarrow> string list ResponseInterceptor" where
  "failRes name err r w = (Return (r, Some err), w @ [name])"

definition loggingBody :: "string list io_ReadCloser" where
  "loggingBody = ReadCloser (\<lambda>w. (None, w @ [''close'']))"

definition loggingTransport :: "string list RoundTripper" where
  "loggingTransport rq w =
     (Return (Some \<lparr>StatusCode = 0, ResponseHeader = Map.empty, ResponseBody = Some loggingBody\<rparr>,
              None),
      w @ [''transport '' @ Method rq])"

definition redirectingTransport :: "string \<Rightarrow> string list RoundTripper" where
  "redirectingTransport loc rq w =
     (Return (Some \<lparr>StatusCode = 302, ResponseHeader = [''Location'' \<mapsto> [loc]],
                     ResponseBody = Some loggingBody\<rparr>,
              None),
      w @ [''transport '' @ Method rq])"

definition testRequest :: "string \<Rightarrow> string list Request" where
  "testRequest m =
     \<lparr>Method = m,
      URL = \<lparr>Scheme = [], Host = [], Path = ''/a/b'', RawQuery = [], Fragment = []\<rparr>,
      Header = Map.empty, Body = None, ContentLength = 0\<rparr>"


text \<open>A body whose \<open>Close\<close> logs \<open>close\<close> and fails.\<close>

definition failingBody :: "error \<Rightarrow> string list io_ReadCloser" where
  "failingBody err = ReadCloser (\<lambda>w. (Some err, w @ [''close'']))"

text \<open>
  The message of a \<open>*url.Error\<close>, \<open>fmt.Sprintf("%s %q: %s", e.Op, e.URL, e.Err)\<close>, for a
  URL of plain characters, which \<open>%q\<close> puts between double quotes as it is.
\<close>

definition quoted :: "string \<Rightarrow> string" where
  "quoted s = CHR 0x22 # s @ [CHR 0x22]"

fun urlError :: "string \<Rightarrow> string \<Rightarrow> error \<Rightarrow> error" where
  "urlError op u (Error msg) = Error (op @ '' '' @ quoted u @ '': '' @ msg)"

text \<open>
  Stand-ins for \<open>url.Parse\<close> and \<open>(*URL).String\<close> on the strings the examples use: one
  absolute URL, one string that starts with a colon, anything else; and URLs whose path
  needs no escaping.
\<close>

definition testParse :: "string \<Rightarrow> error + url" where
  "testParse s =
     (if s = ''https://host/a/b''
      then Inr \<lparr>Scheme = ''https'', Host = ''host'', Path = ''/a/b'', RawQuery = [], Fragment = []\<rparr>
      else if s = ''://host/a/b'' then Inl (urlError ''parse'' s (Error ''missing protocol scheme''))
      else Inl (Error ''not a URL of the examples''))"

definition testURLString :: "url \<Rightarrow> string" where
  "testURLString u = (if Scheme u = [] then Path u else Scheme u @ ''://'' @ Host u @ Path u)"

text \<open>
  Stand-ins for \<open>(*http.Client).Do\<close>, for a client whose \<open>CheckRedirect\<close> lets no redirect
  through: it returns \<open>http.ErrUseLastResponse\<close> for every redirect, or it refuses every
  redirect with one error. They follow what \<open>net/http\<close> does with the answer of the
  client's \<open>RoundTripper\<close>:
  \<^item> an error of the \<open>RoundTripper\<close> is returned wrapped in a \<open>*url.Error\<close> with a nil
    response, whether a response came with it or not;
  \<^item> a response without a body gets an empty one;
  \<^item> a response that is no redirect, or has no \<open>Location\<close> header, is returned as it is,
    its body open;
  \<^item> on a redirect the body of the request is closed; under \<open>ErrUseLastResponse\<close> the
    response is returned as it is, its body open; when \<open>CheckRedirect\<close> refuses, the body
    of the response is closed and the response is returned together with the error,
    wrapped in a \<open>*url.Error\<close> that names the location.

  \<open>Location\<close> headers are taken to parse. A client without a transport of its own uses
  \<open>http.DefaultTransport\<close>, which refuses a URL without a scheme; there is no network
  behind the stand-in for the others.
\<close>

datatype redirectPolicy = UseLastResponse | Refuse error

definition asciiLower :: "char \<Rightarrow> char" where
  "asciiLower ch =
     (case map_of (zip ''ABCDEFGHIJKLMNOPQRSTUVWXYZ'' ''abcdefghijklmnopqrstuvwxyz'') ch of
        None \<Rightarrow> ch
      | Some l \<Rightarrow> l)"

text \<open>\<open>urlErrorOp\<close> of \<open>net/http\<close>, on a method of printable characters.\<close>

definition urlErrorOp :: "string \<Rightarrow> string" where
  "urlErrorOp m = (case m of [] \<Rightarrow> ''Get'' | x # xs \<Rightarrow> x # map asciiLower xs)"

text \<open>\<open>redirectBehavior\<close> of \<open>net/http\<close>, for a request without \<open>GetBody\<close>.\<close>

definition shouldRedirect :: "'w Request \<Rightarrow> 'w Response \<Rightarrow> bool" where
  "shouldRedirect rq r =
     (StatusCode r \<in> {301, 302, 303} \<or> (StatusCode r \<in> {307, 308} \<and> Body rq = None))"

definition clientDo :: "redirectPolicy \<Rightarrow> string list http_Do" where
  "clientDo policy h req w =
     (case req of
        None \<Rightarrow> (Panic NilPointerDereference, w)
      | Some rq \<Rightarrow>
          (let wrap = urlError (urlErrorOp (Method rq)) (testURLString (URL rq)) in
           case Transport h of
             None \<Rightarrow>
               (Return (None, Some (wrap (if Scheme (URL rq) = []
                                          then Error (''unsupported protocol scheme '' @ quoted [])
                                          else Error ''no network behind the stand-in''))), w)
           | Some t \<Rightarrow>
               (case t rq w of
                  (Panic p, wa) \<Rightarrow> (Panic p, wa)
                | (Return (res, Some err), wa) \<Rightarrow> (Return (None, Some (wrap err)), wa)
                | (Return (None, None), wa) \<Rightarrow>
                    (Return (None, Some (wrap (Error
                       ''http: RoundTripper returned a nil *Response with a nil error''))), wa)
                | (Return (Some r0, None), wa) \<Rightarrow>
                    (let body = (case ResponseBody r0 of
                                   None \<Rightarrow> ReadCloser (\<lambda>v. (None, v))
                                 | Some b \<Rightarrow> b);
                         r = r0\<lparr>ResponseBody := Some body\<rparr>;
                         loc = Header_Get ''Location'' (ResponseHeader r)
                     in if \<not> shouldRedirect rq r then (Return (Some r, None), wa)
                        else
                          (let wb = (case Body rq of None \<Rightarrow> wa | Some b \<Rightarrow> snd (Close b wa))
                           in if loc = [] then (Return (Some r, None), wb)
                              else
                                (case policy of
                                   UseLastResponse \<Rightarrow> (Return (Some r, None), wb)
                                 | Refuse err \<Rightarrow>
                                     (Return (Some r,
                                              Some (urlError (urlErrorOp (Method rq)) loc err)),
                                      snd (Close body wb))))))))"

text \<open>The stand-in of most examples: the client that follows no redirect and returns the
  last response.\<close>

definition testDo :: "string list http_Do" where
  "testDo = clientDo UseLastResponse"

text \<open>
  A stand-in for \<open>json.Marshal\<close>: a string of plain characters is put between double
  quotes, and a channel is a value JSON cannot encode.
\<close>

datatype testValue = StringValue string | ChanValue

fun testMarshal :: "testValue \<Rightarrow> bytes \<times> error option" where
  "testMarshal (StringValue s) = (CHR 0x22 # s @ [CHR 0x22], None)"
| "testMarshal ChanValue = ([], Some (Error ''json: unsupported type: chan int''))"

text \<open>
  A stand-in for \<open>http.NewRequestWithContext\<close>, for URLs that are a plain path or the path
  with a broken escape: an empty method stands for \<open>GET\<close>, a method with a space in it is
  refused, and so is the broken escape.
\<close>

definition testNewRequest :: "unit \<Rightarrow> string \<Rightarrow> string \<Rightarrow> error + string list Request" where
  "testNewRequest ctx method u =
     (if CHR '' '' \<in> set method then Inl (Error (''net/http: invalid method '' @ quoted method))
      else if u = ''/%zz''
      then Inl (urlError ''parse'' u (Error (''invalid URL escape '' @ quoted ''%zz'')))
      else Inr ((testRequest (if method = [] then ''GET'' else method))
                  \<lparr>URL := \<lparr>Scheme = [], Host = [], Path = u, RawQuery = [], Fragment = []\<rparr>\<rparr>))"

section \<open>The loops of Do and the phases of the specification\<close>

text \<open>Running two sequences one after the other is running their concatenation.\<close>

lemma invokeInOrder_append:
  "invokeInOrder (xs @ ys) x w =
     (case invokeInOrder xs x w of
        (Return (x', None), w') \<Rightarrow> invokeInOrder ys x' w'
      | stopped \<Rightarrow> stopped)"
  by (induction xs arbitrary: x w) (auto split: prod.splits outcome.splits option.splits)

text \<open>Each loop of \<open>Do\<close> is a phase over the interceptors it meets; a loop over options
  meets the capable ones, in the order passed.\<close>

lemma Do_reqInterceptors_invoke:
  "Do_reqInterceptors is req w =
     (case invokeInOrder is req w of
        (Return (r, None), w') \<Rightarrow> (Continue r, w')
      | (Return (r, Some err), w') \<Rightarrow> (Returning (None, Some err), w')
      | (Panic p, w') \<Rightarrow> (Panicking p, w'))"
  by (induction "is" arbitrary: req w) (auto split: prod.splits outcome.splits option.splits)

lemma Do_reqOpts_capable:
  "Do_reqOpts opts req w = Do_reqInterceptors (requestCapable opts) req w"
  by (induction opts arbitrary: req w)
     (auto simp: requestCapable_def split: prod.splits outcome.splits option.splits)

lemma Do_resInterceptors_invoke:
  "Do_resInterceptors is res w =
     (case invokeInOrder is res w of
        (Return (r, None), w') \<Rightarrow> (Continue r, w')
      | (Return (r, Some err), w') \<Rightarrow> (Returning (r, Some err), w')
      | (Panic p, w') \<Rightarrow> (Panicking p, w'))"
  by (induction "is" arbitrary: res w) (auto split: prod.splits outcome.splits option.splits)

lemma Do_resOpts_capable:
  "Do_resOpts opts res w = Do_resInterceptors (responseCapable opts) res w"
  by (induction opts arbitrary: res w)
     (auto simp: responseCapable_def split: prod.splits outcome.splits option.splits)

lemma Do_afterDefer_invoke:
  "Do_afterDefer cl opts res w =
     invokeInOrder (responseCapable opts @ resInterceptors cl) res w"
  by (auto simp: Do_afterDefer_def Do_resOpts_capable Do_resInterceptors_invoke
        invokeInOrder_append split: prod.splits outcome.splits option.splits)

text \<open>\<open>Do\<close> as two phases around the transport.\<close>

lemma Do_pipeline:
  "Do httpDo cl req opts w =
     (case invokeInOrder (reqInterceptors cl @ requestCapable opts) req w of
        (Panic p, w1) \<Rightarrow> (Panic p, w1)
      | (Return (rq, Some err), w1) \<Rightarrow> (Return (None, Some err), w1)
      | (Return (rq, None), w1) \<Rightarrow>
          (case httpDo (c cl) rq w1 of
             (Panic p, w2) \<Rightarrow> (Panic p, w2)
           | (Return (res, Some err), w2) \<Rightarrow> (Return (res, Some err), w2)
           | (Return (None, None), w2) \<Rightarrow> (Panic NilPointerDereference, w2)
           | (Return (Some r, None), w2) \<Rightarrow>
               (case ResponseBody r of
                  None \<Rightarrow> (Panic NilPointerDereference, w2)
                | Some body \<Rightarrow>
                    (case invokeInOrder (responseCapable opts @ resInterceptors cl) (Some r) w2 of
                       (out, w3) \<Rightarrow> (out, snd (Close body w3))))))"
  unfolding Do_def Do_afterDefer_invoke Do_reqOpts_capable Do_reqInterceptors_invoke
    invokeInOrder_append
  by (auto split: prod.splits outcome.splits option.splits flow.splits)

text \<open>A sequence whose first \<open>k\<close> members succeed and whose next member returns an error
  stops there, with what that member returned.\<close>

lemma invokeInOrder_stops_at:
  assumes "k < length Q"
    and "invokeInOrder (take k Q) x w = (Return (y, None), w1)"
    and "(Q ! k) y w1 = (Return (y', Some err), w2)"
  shows "invokeInOrder Q x w = (Return (y', Some err), w2)"
proof -
  have "Q = take k Q @ (Q ! k) # drop (Suc k) Q"
    using assms(1) by (simp add: id_take_nth_drop)
  then have "invokeInOrder Q x w = invokeInOrder (take k Q @ (Q ! k) # drop (Suc k) Q) x w"
    by simp
  also have "\<dots> = (Return (y', Some err), w2)"
    using assms(2,3) by (simp add: invokeInOrder_append)
  finally show ?thesis .
qed

text \<open>
  The sequences of the client that \<open>New\<close> builds, when it does not panic: the request
  sequence holds the request-capable options in the order passed, the response sequence
  the response-capable options that are not request-capable, in the order passed.
\<close>

lemma New_loop_sequences:
  "New_loop cl0 opts = Return cl \<Longrightarrow>
   reqInterceptors cl = reqInterceptors cl0 @ requestCapable opts \<and>
   resInterceptors cl = resInterceptors cl0 @ List.map_filter responseOnly opts"
  by (induction cl0 opts rule: New_loop.induct) (auto simp: requestCapable_def)

lemma New_sequences:
  "New opts = Return cl \<Longrightarrow>
   reqInterceptors cl = requestCapable opts \<and>
   resInterceptors cl = List.map_filter responseOnly opts"
  by (auto simp: New_def dest: New_loop_sequences)

lemmas test_defs = tagReq_def tagRes_def failReq_def failRes_def loggingBody_def
  failingBody_def loggingTransport_def redirectingTransport_def testDo_def clientDo_def
  shouldRedirect_def Header_Get_def urlErrorOp_def asciiLower_def quoted_def testURLString_def
  testRequest_def requestCapable_def responseCapable_def

section \<open>C1: an option with both capabilities\<close>

text \<open>
  C1 asks that an option with both capabilities, given once to \<open>New\<close>, be appended once to
  the client's request sequence and once to its response sequence. The type switch of
  \<open>New\<close> takes the case \<open>RequestInterceptor\<close> for such an option and never reaches the case
  \<open>ResponseInterceptor\<close>: the client has the request interceptor and no response
  interceptor, for any such option and for \<open>ForJSON\<close> in particular (for any list of
  options, \<open>New_sequences\<close> above). The two loops of \<open>Do\<close>
  over the call's options assert each capability on its own. The recorded calls show the
  difference: with the option given to \<open>New\<close> its response side never runs, with the
  option given to the call both sides run.
\<close>

theorem New_drops_response_capability:
  "New [Interceptors (Some rq) (Some rs)] =
     Return \<lparr>c = \<lparr>Transport = None\<rparr>, reqInterceptors = [rq], resInterceptors = []\<rparr>
   \<and>
   New [ForJSON readAll unmarshal v] =
     Return \<lparr>c = \<lparr>Transport = None\<rparr>, reqInterceptors = [forJSON_InterceptRequest],
             resInterceptors = []\<rparr>
   \<and>
   New [WithTransport (Some loggingTransport),
        Interceptors (Some (tagReq ''J'')) (Some (tagRes ''J'' 1))] =
     Return \<lparr>c = \<lparr>Transport = Some loggingTransport\<rparr>, reqInterceptors = [tagReq ''J''],
             resInterceptors = []\<rparr>
   \<and>
   Do testDo
      \<lparr>c = \<lparr>Transport = Some loggingTransport\<rparr>, reqInterceptors = [tagReq ''J''],
       resInterceptors = []\<rparr>
      (Some (testRequest ''GET'')) [] [] =
     (Return (Some \<lparr>StatusCode = 0, ResponseHeader = Map.empty,
                      ResponseBody = Some loggingBody\<rparr>, None),
      [''J'', ''transport GETJ'', ''close''])
   \<and>
   Do testDo
      \<lparr>c = \<lparr>Transport = Some loggingTransport\<rparr>, reqInterceptors = [], resInterceptors = []\<rparr>
      (Some (testRequest ''GET''))
      [Interceptors (Some (tagReq ''J'')) (Some (tagRes ''J'' 1))] [] =
     (Return (Some \<lparr>StatusCode = 1, ResponseHeader = Map.empty,
                      ResponseBody = Some loggingBody\<rparr>, None),
      [''J'', ''transport GETJ'', ''J'', ''close''])"
  by (simp add: New_def ForJSON_def WithTransport_def Do_def Do_afterDefer_def test_defs)

section \<open>C2: the order of invocation\<close>

text \<open>
  C2. Let \<open>R1..Rn\<close> be the client's request interceptors and \<open>S1..Sp\<close> its response
  interceptors, in the order registered, and let \<open>C1..Cm\<close> and \<open>D1..Dk\<close> be the
  request-capable and the response-capable members of the call's options, in the order
  passed. A call of \<open>Do\<close> succeeds with a response, in a final world, exactly when:
  \<open>R1,...,Rn,C1,...,Cm\<close> invoked in this order, each on the request its predecessor
  returned, all return without error; the transport, given the last request, returns a
  response without error; \<open>D1,...,Dk,S1,...,Sp\<close> invoked in this order from that
  response, each on the response its predecessor returned, all return without error, the
  last one returning the response of the call; and the final world is the one these
  invocations produce in this order, followed by closing the transport's body.
\<close>

theorem Do_invocation_order:
  "Do httpDo cl req opts w = (Return (res', None), w') \<longleftrightarrow>
     (\<exists>req' w1 r body w2 w3.
        invokeInOrder (reqInterceptors cl @ requestCapable opts) req w = (Return (req', None), w1) \<and>
        httpDo (c cl) req' w1 = (Return (Some r, None), w2) \<and>
        ResponseBody r = Some body \<and>
        invokeInOrder (responseCapable opts @ resInterceptors cl) (Some r) w2 =
          (Return (res', None), w3) \<and>
        w' = snd (Close body w3))"
  unfolding Do_pipeline
  by (auto split: prod.splits outcome.splits option.splits)

text \<open>
  A recorded call: two client request interceptors, two client response interceptors, and
  three call options of which the first has both capabilities, the second only the
  response one and the third only the request one. The log, the method the transport
  receives and the digits of the status code show the order and the threading.
\<close>

theorem Do_invocation_order_witness:
  "Do testDo
      \<lparr>c = \<lparr>Transport = Some loggingTransport\<rparr>,
       reqInterceptors = [tagReq ''R1'', tagReq ''R2''],
       resInterceptors = [tagRes ''S1'' 3, tagRes ''S2'' 4]\<rparr>
      (Some (testRequest ''GET''))
      [Interceptors (Some (tagReq ''C1'')) (Some (tagRes ''D1'' 1)),
       Interceptors None (Some (tagRes ''D2'' 2)),
       Interceptors (Some (tagReq ''C2'')) None] []
   = (Return (Some \<lparr>StatusCode = 1234, ResponseHeader = Map.empty,
                      ResponseBody = Some loggingBody\<rparr>, None),
      [''R1'', ''R2'', ''C1'', ''C2'', ''transport GETR1R2C1C2'', ''D1'', ''D2'', ''S1'', ''S2'',
       ''close''])"
  unfolding Do_invocation_order
  by (simp add: test_defs)

section \<open>C3: the first error wins\<close>

text \<open>
  C3. Let \<open>Q\<close> be the request sequence \<open>R1,...,Rn,C1,...,Cm\<close> and \<open>P\<close> the response
  sequence \<open>D1,...,Dk,S1,...,Sp\<close> of a call of \<open>Do\<close>. If the first \<open>k\<close> members of \<open>Q\<close>
  succeed and member \<open>k\<close> returns an error, \<open>Do\<close> returns a nil response with exactly that
  error, in the world that member left: whatever the later interceptors and the transport
  are, none of them has run. If \<open>Q\<close> and the transport succeed, the first \<open>j\<close> members of
  \<open>P\<close> succeed and member \<open>j\<close> returns an error, \<open>Do\<close> returns what that member returned,
  with exactly its error, in the world it left followed only by the closing of the
  transport's body: no later interceptor has run.
\<close>

theorem Do_first_error_wins:
  "(k < length (reqInterceptors cl @ requestCapable opts) \<and>
    invokeInOrder (take k (reqInterceptors cl @ requestCapable opts)) req w = (Return (rq, None), wa) \<and>
    ((reqInterceptors cl @ requestCapable opts) ! k) rq wa = (Return (rq', Some err), wb)
    \<longrightarrow> Do httpDo cl req opts w = (Return (None, Some err), wb))
   \<and>
   (invokeInOrder (reqInterceptors cl @ requestCapable opts) req w = (Return (req', None), va) \<and>
    httpDo (c cl) req' va = (Return (Some r, None), vb) \<and>
    ResponseBody r = Some body \<and>
    j < length (responseCapable opts @ resInterceptors cl) \<and>
    invokeInOrder (take j (responseCapable opts @ resInterceptors cl)) (Some r) vb =
      (Return (rs, None), vc) \<and>
    ((responseCapable opts @ resInterceptors cl) ! j) rs vc = (Return (rs', Some err'), vd)
    \<longrightarrow> Do httpDo cl req opts w = (Return (rs', Some err'), snd (Close body vd)))"
proof (intro conjI impI; elim conjE)
  assume "k < length (reqInterceptors cl @ requestCapable opts)"
    and "invokeInOrder (take k (reqInterceptors cl @ requestCapable opts)) req w =
           (Return (rq, None), wa)"
    and "((reqInterceptors cl @ requestCapable opts) ! k) rq wa = (Return (rq', Some err), wb)"
  then have "invokeInOrder (reqInterceptors cl @ requestCapable opts) req w =
               (Return (rq', Some err), wb)"
    by (rule invokeInOrder_stops_at)
  then show "Do httpDo cl req opts w = (Return (None, Some err), wb)"
    by (simp add: Do_pipeline)
next
  assume req_ok: "invokeInOrder (reqInterceptors cl @ requestCapable opts) req w =
                    (Return (req', None), va)"
    and transport_ok: "httpDo (c cl) req' va = (Return (Some r, None), vb)"
    and body: "ResponseBody r = Some body"
    and "j < length (responseCapable opts @ resInterceptors cl)"
    and "invokeInOrder (take j (responseCapable opts @ resInterceptors cl)) (Some r) vb =
           (Return (rs, None), vc)"
    and "((responseCapable opts @ resInterceptors cl) ! j) rs vc = (Return (rs', Some err'), vd)"
  then have "invokeInOrder (responseCapable opts @ resInterceptors cl) (Some r) vb =
               (Return (rs', Some err'), vd)"
    by (intro invokeInOrder_stops_at)
  with req_ok transport_ok body
  show "Do httpDo cl req opts w = (Return (rs', Some err'), snd (Close body vd))"
    by (simp add: Do_pipeline)
qed

text \<open>
  Two recorded calls. In the first the second client request interceptor fails: the third,
  the call-level one and the transport leave no trace. In the second the second
  response-capable option fails: the third option and both client response interceptors
  leave no trace, and the status code carries the digit of \<open>D1\<close> only.
\<close>

theorem Do_first_error_wins_witness:
  "Do testDo
      \<lparr>c = \<lparr>Transport = Some loggingTransport\<rparr>,
       reqInterceptors = [tagReq ''R1'', failReq ''R2'' (Error ''denied''), tagReq ''R3''],
       resInterceptors = [tagRes ''S1'' 3]\<rparr>
      (Some (testRequest ''GET''))
      [Interceptors (Some (tagReq ''C1'')) (Some (tagRes ''D1'' 1))] []
     = (Return (None, Some (Error ''denied'')), [''R1'', ''R2''])
   \<and>
   Do testDo
      \<lparr>c = \<lparr>Transport = Some loggingTransport\<rparr>,
       reqInterceptors = [tagReq ''R1''],
       resInterceptors = [failRes ''S1'' (Error ''late''), tagRes ''S2'' 4]\<rparr>
      (Some (testRequest ''GET''))
      [Interceptors (Some (tagReq ''C1'')) (Some (tagRes ''D1'' 1)),
       Interceptors None (Some (failRes ''D2'' (Error ''rejected''))),
       Interceptors None (Some (tagRes ''D3'' 2))] []
     = (Return (Some \<lparr>StatusCode = 1, ResponseHeader = Map.empty,
                        ResponseBody = Some loggingBody\<rparr>, Some (Error ''rejected'')),
        [''R1'', ''C1'', ''transport GETR1C1'', ''D1'', ''D2'', ''close''])"
  using
    Do_first_error_wins [
      where k = 1 and httpDo = testDo and req = "Some (testRequest ''GET'')" and w = "[]"
      and cl = "\<lparr>c = \<lparr>Transport = Some loggingTransport\<rparr>,
       reqInterceptors = [tagReq ''R1'', failReq ''R2'' (Error ''denied''), tagReq ''R3''],
       resInterceptors = [tagRes ''S1'' 3]\<rparr>"
      and opts = "[Interceptors (Some (tagReq ''C1'')) (Some (tagRes ''D1'' 1))]"
      and rq = "Some (testRequest ''GETR1'')" and wa = "[''R1'']"
      and rq' = "Some (testRequest ''GETR1'')" and err = "Error ''denied''"
      and wb = "[''R1'', ''R2'']", THEN conjunct1]
    Do_first_error_wins [
      where j = 1 and httpDo = testDo and req = "Some (testRequest ''GET'')" and w = "[]"
      and cl = "\<lparr>c = \<lparr>Transport = Some loggingTransport\<rparr>,
       reqInterceptors = [tagReq ''R1''],
       resInterceptors = [failRes ''S1'' (Error ''late''), tagRes ''S2'' 4]\<rparr>"
      and opts = "[Interceptors (Some (tagReq ''C1'')) (Some (tagRes ''D1'' 1)),
       Interceptors None (Some (failRes ''D2'' (Error ''rejected''))),
       Interceptors None (Some (tagRes ''D3'' 2))]"
      and req' = "Some (testRequest ''GETR1C1'')" and va = "[''R1'', ''C1'']"
      and r = "\<lparr>StatusCode = 0, ResponseHeader = Map.empty, ResponseBody = Some loggingBody\<rparr>"
      and vb = "[''R1'', ''C1'', ''transport GETR1C1'']" and body = loggingBody
      and rs = "Some \<lparr>StatusCode = 1, ResponseHeader = Map.empty,
                        ResponseBody = Some loggingBody\<rparr>"
      and vc = "[''R1'', ''C1'', ''transport GETR1C1'', ''D1'']"
      and rs' = "Some \<lparr>StatusCode = 1, ResponseHeader = Map.empty,
                        ResponseBody = Some loggingBody\<rparr>"
      and err' = "Error ''rejected''"
      and vd = "[''R1'', ''C1'', ''transport GETR1C1'', ''D1'', ''D2'']", THEN conjunct2]
  by (simp add: test_defs)

section \<open>C4: closing the transport's body\<close>



section \<open>C5: the status-code validator\<close>

text \<open>The loop finds a code exactly when the response's code is among the expected ones.\<close>

lemma statusCodeLoop_member:
  "statusCodeLoop codes r =
     (Some r, if StatusCode r \<in> set codes then None
              else Some (Error (''unexpected status code: '' @ formatInt (StatusCode r))))"
  by (induction codes) auto

text \<open>
  C5. \<open>ExpectedStatusCode(codes...)\<close> is a response interceptor and not a request
  interceptor. On every response, in every world, it returns the response unchanged and
  leaves the world as it is; the error is nil if the response's status code is one of
  \<open>codes\<close>, and otherwise it is the error whose message is \<open>unexpected status code: \<close>
  followed by the status code in decimal.
\<close>

theorem ExpectedStatusCode_validates:
  "asRequestInterceptor (ExpectedStatusCode codes :: 'w opt) = None \<and>
   asResponseInterceptor (ExpectedStatusCode codes :: 'w opt) = Some (expectedStatusCode codes) \<and>
   expectedStatusCode codes (Some r) (w :: 'w) =
     (Return (Some r,
        if StatusCode r \<in> set codes then None
        else Some (Error (''unexpected status code: '' @ formatInt (StatusCode r)))), w)"
  by (simp add: ExpectedStatusCode_def WithResponseInterceptorFunc_def expectedStatusCode_def
      statusCodeLoop_member)

text \<open>Configured with 200: a response with status 200 passes, one with status 404 fails
  with an error that names 404.\<close>

theorem ExpectedStatusCode_validates_witness:
  "expectedStatusCode [200]
      (Some \<lparr>StatusCode = 200, ResponseHeader = Map.empty, ResponseBody = None\<rparr>) (0::nat) =
     (Return (Some \<lparr>StatusCode = 200, ResponseHeader = Map.empty, ResponseBody = None\<rparr>, None), 0)
   \<and>
   expectedStatusCode [200]
      (Some \<lparr>StatusCode = 404, ResponseHeader = Map.empty, ResponseBody = None\<rparr>) (0::nat) =
     (Return (Some \<lparr>StatusCode = 404, ResponseHeader = Map.empty, ResponseBody = None\<rparr>,
              Some (Error ''unexpected status code: 404'')), 0)"
  using ExpectedStatusCode_validates [where codes = "[200]" and w = "0::nat"
      and r = "\<lparr>StatusCode = 200, ResponseHeader = Map.empty, ResponseBody = None\<rparr>",
      THEN conjunct2, THEN conjunct2]
    ExpectedStatusCode_validates [where codes = "[200]" and w = "0::nat"
      and r = "\<lparr>StatusCode = 404, ResponseHeader = Map.empty, ResponseBody = None\<rparr>",
      THEN conjunct2, THEN conjunct2]
  by (simp add: formatInt_def formatNat.simps digitChar_def)

section \<open>C6: the URL prefix\<close>

text \<open>
  C6. \<open>WithURLPrefix(prefix)\<close> is a request interceptor and not a response interceptor. On
  a request whose URL is absolute it returns the request unchanged, with no error. On a
  request whose URL is not absolute it parses the prefix followed by the URL's string: when
  the parser returns a URL, the request is returned with that URL as its URL and no error;
  when the parser returns an error, the request is returned unchanged with that error.
  The world is left as it is in each case.
\<close>

theorem WithURLPrefix_sets_url:
  "asRequestInterceptor (WithURLPrefix parse urlString pre :: 'w opt) =
     Some (withURLPrefix parse urlString pre) \<and>
   asResponseInterceptor (WithURLPrefix parse urlString pre :: 'w opt) = None \<and>
   (IsAbs (URL rq) \<longrightarrow>
      withURLPrefix parse urlString pre (Some rq) (w :: 'w) = (Return (Some rq, None), w)) \<and>
   (\<not> IsAbs (URL rq) \<and> parse (pre @ urlString (URL rq)) = Inr u \<longrightarrow>
      withURLPrefix parse urlString pre (Some rq) w = (Return (Some (rq\<lparr>URL := u\<rparr>), None), w)) \<and>
   (\<not> IsAbs (URL rq) \<and> parse (pre @ urlString (URL rq)) = Inl err \<longrightarrow>
      withURLPrefix parse urlString pre (Some rq) w = (Return (Some rq, Some err), w))"
  by (simp add: WithURLPrefix_def WithRequestInterceptorFunc_def withURLPrefix_def)

text \<open>
  With the prefix \<open>https://host\<close>: the path \<open>/a/b\<close> becomes the URL \<open>https://host/a/b\<close>,
  the absolute URL \<open>https://other/x\<close> stays; and with the prefix \<open>://host\<close>, which makes
  a string the parser refuses, the path \<open>/a/b\<close> gives the parser's error and the request as
  it was.
\<close>

theorem WithURLPrefix_sets_url_witness:
  "withURLPrefix testParse testURLString ''https://host'' (Some (testRequest ''GET'')) [] =
     (Return (Some ((testRequest ''GET'')
        \<lparr>URL := \<lparr>Scheme = ''https'', Host = ''host'', Path = ''/a/b'', RawQuery = [],
                  Fragment = []\<rparr>\<rparr>), None), [])
   \<and>
   withURLPrefix testParse testURLString ''https://host''
     (Some ((testRequest ''GET'')
        \<lparr>URL := \<lparr>Scheme = ''https'', Host = ''other'', Path = ''/x'', RawQuery = [],
                  Fragment = []\<rparr>\<rparr>)) [] =
     (Return (Some ((testRequest ''GET'')
        \<lparr>URL := \<lparr>Scheme = ''https'', Host = ''other'', Path = ''/x'', RawQuery = [],
                  Fragment = []\<rparr>\<rparr>), None), [])
   \<and>
   withURLPrefix testParse testURLString ''://host'' (Some (testRequest ''GET'')) [] =
     (Return (Some (testRequest ''GET''),
        Some (Error (''parse '' @ quoted ''://host/a/b'' @ '': missing protocol scheme''))), [])"
  using
    WithURLPrefix_sets_url [where parse = testParse and urlString = testURLString
      and pre = "''https://host''" and rq = "testRequest ''GET''" and w = "[]"
      and u = "\<lparr>Scheme = ''https'', Host = ''host'', Path = ''/a/b'', RawQuery = [],
                Fragment = []\<rparr>"]
    WithURLPrefix_sets_url [where parse = testParse and urlString = testURLString
      and pre = "''https://host''" and w = "[]"
      and rq = "(testRequest ''GET'')
        \<lparr>URL := \<lparr>Scheme = ''https'', Host = ''other'', Path = ''/x'', RawQuery = [],
                  Fragment = []\<rparr>\<rparr>"]
    WithURLPrefix_sets_url [where parse = testParse and urlString = testURLString
      and pre = "''://host''" and w = "[]" and rq = "testRequest ''GET''"
      and err = "Error (''parse '' @ quoted ''://host/a/b'' @ '': missing protocol scheme'')"]
  by (simp add: testParse_def testURLString_def testRequest_def IsAbs_def quoted_def)

section \<open>C7: the JSON body\<close>

text \<open>
  C7. \<open>WithJSON(value)\<close> is a request interceptor and not a response interceptor. When
  marshalling the value fails, it returns the request it was given with the marshalling
  error, and nothing has been closed. When marshalling gives the bytes \<open>b\<close>, the prior
  body of the request, if it is not nil, is closed first: if that \<open>Close\<close> fails, the
  request is returned as it was with the error of \<open>Close\<close>; otherwise the request is
  returned with a body that reads exactly \<open>b\<close>, the header \<open>Content-Type\<close> set to
  \<open>application/json\<close> and the content length set to the number of bytes of \<open>b\<close>.
\<close>

theorem WithJSON_sets_body:
  "asRequestInterceptor (WithJSON marshal v :: 'w opt) = Some (withJSON marshal v) \<and>
   asResponseInterceptor (WithJSON marshal v :: 'w opt) = None \<and>
   (marshal v = (b, Some err) \<longrightarrow>
      withJSON marshal v r (w :: 'w) = (Return (r, Some err), w)) \<and>
   (marshal v = (b, None) \<and>
    (case Body rq of None \<Rightarrow> (None, w) | Some prior \<Rightarrow> Close prior w) = (Some cerr, w') \<longrightarrow>
      withJSON marshal v (Some rq) w = (Return (Some rq, Some cerr), w')) \<and>
   (marshal v = (b, None) \<and>
    (case Body rq of None \<Rightarrow> (None, w) | Some prior \<Rightarrow> Close prior w) = (None, w') \<longrightarrow>
      withJSON marshal v (Some rq) w =
        (Return (Some (rq\<lparr>Body := Some (readCloser (bytes_Reader b)),
                           Header := (Header rq)(''Content-Type'' \<mapsto> [''application/json'']),
                           ContentLength := int (length b)\<rparr>), None), w'))"
  by (simp add: WithJSON_def WithRequestInterceptorFunc_def withJSON_def withBody_def
      Header_Set_def)

text \<open>
  A value that cannot be marshalled leaves the prior body unclosed; a prior body whose
  \<open>Close\<close> fails stops the interceptor with that error; and the string \<open>hello\<close> becomes a
  body of its seven bytes of JSON, after the prior body has been closed.
\<close>

theorem WithJSON_sets_body_witness:
  "withJSON testMarshal ChanValue (Some ((testRequest ''POST'')\<lparr>Body := Some loggingBody\<rparr>)) [] =
     (Return (Some ((testRequest ''POST'')\<lparr>Body := Some loggingBody\<rparr>),
              Some (Error ''json: unsupported type: chan int'')), [])
   \<and>
   withJSON testMarshal (StringValue ''hello'')
     (Some ((testRequest ''POST'')\<lparr>Body := Some (failingBody (Error ''close failed''))\<rparr>)) [] =
     (Return (Some ((testRequest ''POST'')\<lparr>Body := Some (failingBody (Error ''close failed''))\<rparr>),
              Some (Error ''close failed'')), [''close''])
   \<and>
   withJSON testMarshal (StringValue ''hello'')
     (Some ((testRequest ''POST'')\<lparr>Body := Some loggingBody\<rparr>)) [] =
     (Return (Some ((testRequest ''POST'')
                \<lparr>Body := Some (readCloser (bytes_Reader (CHR 0x22 # ''hello'' @ [CHR 0x22]))),
                 Header := [''Content-Type'' \<mapsto> [''application/json'']],
                 ContentLength := 7\<rparr>), None), [''close''])"
  using
    WithJSON_sets_body [where marshal = testMarshal and v = ChanValue and b = "[]"
      and err = "Error ''json: unsupported type: chan int''" and w = "[]"
      and r = "Some ((testRequest ''POST'')\<lparr>Body := Some loggingBody\<rparr>)"]
    WithJSON_sets_body [where marshal = testMarshal and v = "StringValue ''hello''"
      and b = "CHR 0x22 # ''hello'' @ [CHR 0x22]" and w = "[]" and w' = "[''close'']"
      and cerr = "Error ''close failed''"
      and rq = "(testRequest ''POST'')\<lparr>Body := Some (failingBody (Error ''close failed''))\<rparr>"]
    WithJSON_sets_body [where marshal = testMarshal and v = "StringValue ''hello''"
      and b = "CHR 0x22 # ''hello'' @ [CHR 0x22]" and w = "[]" and w' = "[''close'']"
      and rq = "(testRequest ''POST'')\<lparr>Body := Some loggingBody\<rparr>"]
  by (simp add: test_defs)

section \<open>C8: errors of request construction\<close>

text \<open>
  C8. When building the request from the context, the method and the URL fails,
  \<open>Execute\<close> returns a nil response with the error of the construction, in the world it
  was called in: no interceptor and no transport has run. When building succeeds,
  \<open>Execute\<close> is \<open>Do\<close> on the request built.
\<close>

theorem Execute_construction_error:
  "(newRequest ctx meth u = Inl err \<longrightarrow>
      Execute newRequest httpDo cl ctx meth u opts w = (Return (None, Some err), w)) \<and>
   (newRequest ctx meth u = Inr rq \<longrightarrow>
      Execute newRequest httpDo cl ctx meth u opts w = Do httpDo cl (Some rq) opts w)"
  by (simp add: Execute_def)

text \<open>
  A client with a request interceptor, a response interceptor and a request-capable call
  option: a method with a space in it and a URL with a broken escape each give the
  construction error and an empty log; a well-formed call runs the whole pipeline.
\<close>

theorem Execute_construction_error_witness:
  "Execute testNewRequest testDo
      \<lparr>c = \<lparr>Transport = Some loggingTransport\<rparr>,
       reqInterceptors = [tagReq ''R1''], resInterceptors = [tagRes ''S1'' 1]\<rparr>
      () ''G ET'' ''/a/b'' [Interceptors (Some (tagReq ''C1'')) None] [] =
     (Return (None, Some (Error (''net/http: invalid method '' @ quoted ''G ET''))), [])
   \<and>
   Execute testNewRequest testDo
      \<lparr>c = \<lparr>Transport = Some loggingTransport\<rparr>,
       reqInterceptors = [tagReq ''R1''], resInterceptors = [tagRes ''S1'' 1]\<rparr>
      () ''GET'' ''/%zz'' [Interceptors (Some (tagReq ''C1'')) None] [] =
     (Return (None, Some (Error (''parse '' @ quoted ''/%zz'' @ '': invalid URL escape '' @
                                  quoted ''%zz''))), [])
   \<and>
   Execute testNewRequest testDo
      \<lparr>c = \<lparr>Transport = Some loggingTransport\<rparr>,
       reqInterceptors = [tagReq ''R1''], resInterceptors = [tagRes ''S1'' 1]\<rparr>
      () ''GET'' ''/a/b'' [Interceptors (Some (tagReq ''C1'')) None] [] =
     (Return (Some \<lparr>StatusCode = 1, ResponseHeader = Map.empty,
                      ResponseBody = Some loggingBody\<rparr>, None),
      [''R1'', ''C1'', ''transport GETR1C1'', ''S1'', ''close''])"
  using
    Execute_construction_error [where newRequest = testNewRequest and httpDo = testDo
      and ctx = "()" and meth = "''G ET''" and u = "''/a/b''" and w = "[]"
      and err = "Error (''net/http: invalid method '' @ quoted ''G ET'')"
      and opts = "[Interceptors (Some (tagReq ''C1'')) None]"
      and cl = "\<lparr>c = \<lparr>Transport = Some loggingTransport\<rparr>,
                 reqInterceptors = [tagReq ''R1''], resInterceptors = [tagRes ''S1'' 1]\<rparr>"]
    Execute_construction_error [where newRequest = testNewRequest and httpDo = testDo
      and ctx = "()" and meth = "''GET''" and u = "''/%zz''" and w = "[]"
      and err = "Error (''parse '' @ quoted ''/%zz'' @ '': invalid URL escape '' @ quoted ''%zz'')"
      and opts = "[Interceptors (Some (tagReq ''C1'')) None]"
      and cl = "\<lparr>c = \<lparr>Transport = Some loggingTransport\<rparr>,
                 reqInterceptors = [tagReq ''R1''], resInterceptors = [tagRes ''S1'' 1]\<rparr>"]
    Execute_construction_error [where newRequest = testNewRequest and httpDo = testDo
      and ctx = "()" and meth = "''GET''" and u = "''/a/b''" and w = "[]"
      and rq = "testRequest ''GET''"
      and opts = "[Interceptors (Some (tagReq ''C1'')) None]"
      and cl = "\<lparr>c = \<lparr>Transport = Some loggingTransport\<rparr>,
                 reqInterceptors = [tagReq ''R1''], resInterceptors = [tagRes ''S1'' 1]\<rparr>"]
  by (simp add: testNewRequest_def Do_def Do_afterDefer_def test_defs)

section \<open>C9: which errors come with a response\<close>

text \<open>
  C9. With \<open>Q\<close> and \<open>P\<close> the request and the response sequence of a call of \<open>Do\<close>: if \<open>Q\<close>
  stops with an error, \<open>Do\<close> returns a nil response with that error. If \<open>Q\<close> and the
  transport succeed and \<open>P\<close> stops with an error, \<open>Do\<close> returns that error together with
  the response the failing interceptor returned, nil or not. So whenever \<open>Do\<close> returns a
  response that is not nil together with an error, the request sequence has succeeded,
  and the pair is either what the transport returned or what the failing response
  interceptor returned.
\<close>

theorem Do_response_with_error:
  "(invokeInOrder (reqInterceptors cl @ requestCapable opts) req w = (Return (rq, Some err), wa)
    \<longrightarrow> Do httpDo cl req opts w = (Return (None, Some err), wa))
   \<and>
   (invokeInOrder (reqInterceptors cl @ requestCapable opts) req w = (Return (req', None), va) \<and>
    httpDo (c cl) req' va = (Return (Some r, None), vb) \<and>
    ResponseBody r = Some body \<and>
    invokeInOrder (responseCapable opts @ resInterceptors cl) (Some r) vb =
      (Return (rs, Some err'), vc)
    \<longrightarrow> Do httpDo cl req opts w = (Return (rs, Some err'), snd (Close body vc)))
   \<and>
   (Do httpDo cl req opts w = (Return (Some res, Some e), w') \<longrightarrow>
      (\<exists>req' ua. invokeInOrder (reqInterceptors cl @ requestCapable opts) req w =
           (Return (req', None), ua) \<and>
         (httpDo (c cl) req' ua = (Return (Some res, Some e), w') \<or>
          (\<exists>r body ub uc. httpDo (c cl) req' ua = (Return (Some r, None), ub) \<and>
             ResponseBody r = Some body \<and>
             invokeInOrder (responseCapable opts @ resInterceptors cl) (Some r) ub =
               (Return (Some res, Some e), uc) \<and>
             w' = snd (Close body uc)))))"
  unfolding Do_pipeline
  by (auto split: prod.splits outcome.splits option.splits)

text \<open>
  A failing request interceptor gives a nil response; a failing response interceptor that
  returns the response it received gives that response with the error; and, with a
  client whose \<open>CheckRedirect\<close> refuses a redirect, the response that comes with the error
  of the refusal is the one \<open>net/http\<close> returned.
\<close>

theorem Do_response_with_error_witness:
  "Do testDo
      \<lparr>c = \<lparr>Transport = Some loggingTransport\<rparr>,
       reqInterceptors = [failReq ''R1'' (Error ''denied'')], resInterceptors = []\<rparr>
      (Some (testRequest ''GET'')) [] []
     = (Return (None, Some (Error ''denied'')), [''R1''])
   \<and>
   Do testDo
      \<lparr>c = \<lparr>Transport = Some loggingTransport\<rparr>,
       reqInterceptors = [], resInterceptors = [failRes ''S1'' (Error ''not found'')]\<rparr>
      (Some (testRequest ''GET'')) [] []
     = (Return (Some \<lparr>StatusCode = 0, ResponseHeader = Map.empty,
                        ResponseBody = Some loggingBody\<rparr>, Some (Error ''not found'')),
        [''transport GET'', ''S1'', ''close''])
   \<and>
   (\<exists>req' ua.
      invokeInOrder ([] @ requestCapable []) (Some (testRequest ''GET'')) [] =
        (Return (req', None), ua) \<and>
      (clientDo (Refuse (Error ''refused''))
          \<lparr>Transport = Some (redirectingTransport ''https://host/a/b'')\<rparr> req' ua =
         (Return (Some \<lparr>StatusCode = 302,
                          ResponseHeader = [''Location'' \<mapsto> [''https://host/a/b'']],
                          ResponseBody = Some loggingBody\<rparr>,
                  Some (Error (''Get '' @ quoted ''https://host/a/b'' @ '': refused''))),
          [''transport GET'', ''close''])))"
proof -
  let ?res = "\<lparr>StatusCode = 0, ResponseHeader = Map.empty, ResponseBody = Some loggingBody\<rparr>"
  let ?moved = "\<lparr>StatusCode = 302, ResponseHeader = [''Location'' \<mapsto> [''https://host/a/b'']],
                ResponseBody = Some loggingBody\<rparr>"
  let ?refusal = "Error (''Get '' @ quoted ''https://host/a/b'' @ '': refused'')"
  let ?cl = "\<lparr>c = \<lparr>Transport = Some (redirectingTransport ''https://host/a/b'')\<rparr>,
              reqInterceptors = [], resInterceptors = []\<rparr>"
  have run: "Do (clientDo (Refuse (Error ''refused''))) ?cl (Some (testRequest ''GET'')) [] [] =
               (Return (Some ?moved, Some ?refusal), [''transport GET'', ''close''])"
    by (simp add: Do_def test_defs)
  have a: "Do testDo
      \<lparr>c = \<lparr>Transport = Some loggingTransport\<rparr>,
       reqInterceptors = [failReq ''R1'' (Error ''denied'')], resInterceptors = []\<rparr>
      (Some (testRequest ''GET'')) [] []
     = (Return (None, Some (Error ''denied'')), [''R1''])"
    using Do_response_with_error [where httpDo = testDo and req = "Some (testRequest ''GET'')"
        and w = "[]" and opts = "[]"
        and cl = "\<lparr>c = \<lparr>Transport = Some loggingTransport\<rparr>,
                   reqInterceptors = [failReq ''R1'' (Error ''denied'')], resInterceptors = []\<rparr>"
        and rq = "Some (testRequest ''GET'')" and err = "Error ''denied''" and wa = "[''R1'']",
        THEN conjunct1]
    by (simp add: test_defs)
  have b: "Do testDo
      \<lparr>c = \<lparr>Transport = Some loggingTransport\<rparr>,
       reqInterceptors = [], resInterceptors = [failRes ''S1'' (Error ''not found'')]\<rparr>
      (Some (testRequest ''GET'')) [] []
     = (Return (Some ?res, Some (Error ''not found'')), [''transport GET'', ''S1'', ''close''])"
    using Do_response_with_error [where httpDo = testDo and req = "Some (testRequest ''GET'')"
        and w = "[]" and opts = "[]"
        and cl = "\<lparr>c = \<lparr>Transport = Some loggingTransport\<rparr>,
                   reqInterceptors = [], resInterceptors = [failRes ''S1'' (Error ''not found'')]\<rparr>"
        and req' = "Some (testRequest ''GET'')" and va = "[]" and r = ?res
        and vb = "[''transport GET'']" and body = loggingBody and rs = "Some ?res"
        and err' = "Error ''not found''" and vc = "[''transport GET'', ''S1'']",
        THEN conjunct2, THEN conjunct1]
    by (simp add: test_defs)
  have c: "\<exists>req' ua.
      invokeInOrder ([] @ requestCapable []) (Some (testRequest ''GET'')) [] =
        (Return (req', None), ua) \<and>
      (clientDo (Refuse (Error ''refused''))
          \<lparr>Transport = Some (redirectingTransport ''https://host/a/b'')\<rparr> req' ua =
         (Return (Some ?moved, Some ?refusal), [''transport GET'', ''close'']))"
    using Do_response_with_error [where httpDo = "clientDo (Refuse (Error ''refused''))"
        and req = "Some (testRequest ''GET'')"
        and w = "[]" and opts = "[]" and cl = ?cl and res = ?moved and e = ?refusal
        and w' = "[''transport GET'', ''close'']", THEN conjunct2, THEN conjunct2] run
    by (simp add: test_defs)
  from a b c show ?thesis by blast
qed

section \<open>C10: an empty set of expected status codes\<close>

text \<open>An option that is only a response interceptor is among those \<open>New\<close> appends to the
  response sequence.\<close>

lemma responseOnly_member:
  "Interceptors None (Some f) \<in> set opts \<Longrightarrow> f \<in> set (List.map_filter responseOnly opts)"
  by (induction opts) (auto split: option.splits)

text \<open>A response-capable option is among the response-capable members of the options.\<close>

lemma responseCapable_member:
  "Interceptors rq (Some f) \<in> set opts \<Longrightarrow> f \<in> set (responseCapable opts)"
  by (induction opts) (auto simp: responseCapable_def split: option.splits)


text \<open>A sequence that holds an interceptor which never succeeds does not succeed.\<close>

lemma invokeInOrder_member_fails:
  "i \<in> set is \<Longrightarrow> (\<And>x w y. fst (i x w) \<noteq> Return (y, None)) \<Longrightarrow>
   fst (invokeInOrder is x w) \<noteq> Return (y, None)"
proof (induction "is" arbitrary: x w)
  case Nil
  then show ?case by simp
next
  case (Cons a rest)
  show ?case
  proof (cases "a x w")
    case (Pair out w')
    show ?thesis
    proof (cases out)
      case (Panic p)
      with Pair show ?thesis by simp
    next
      case (Return pr)
      obtain x' e where pr: "pr = (x', e)" by (cases pr)
      show ?thesis
      proof (cases e)
        case (Some err)
        with Pair Return pr show ?thesis by simp
      next
        case None
        with Pair Return pr have a_ok: "a x w = (Return (x', None), w')" by simp
        have "i \<noteq> a"
        proof
          assume "i = a"
          with Cons.prems(2)[of x w x'] a_ok show False by simp
        qed
        with Cons.prems(1) have "i \<in> set rest" by simp
        from Cons.IH[OF this Cons.prems(2)] a_ok show ?thesis by simp
      qed
    qed
  qed
qed

lemma expectedStatusCode_empty_fails:
  "fst (expectedStatusCode [] x w) \<noteq> Return (y, None)"
  by (cases x) (simp_all add: expectedStatusCode_def)

text \<open>
  C10. The interceptor of \<open>ExpectedStatusCode()\<close>, with no status code, rejects every
  response: it returns the response with an error whose message ends in the response's
  status code. Hence, for a client built by \<open>New\<close>, if \<open>ExpectedStatusCode()\<close> is among the
  options given to \<open>New\<close> or among the options of the call, \<open>Do\<close> never returns a response
  with a nil error.
\<close>

theorem ExpectedStatusCode_empty_rejects:
  "expectedStatusCode [] (Some r) (w :: 'w) =
     (Return (Some r, Some (Error (''unexpected status code: '' @ formatInt (StatusCode r)))), w)
   \<and>
   (New copts = Return cl \<and>
    ((ExpectedStatusCode [] :: 'w opt) \<in> set copts \<or> ExpectedStatusCode [] \<in> set opts) \<longrightarrow>
      fst (Do httpDo cl req opts w) \<noteq> Return (res, None))"
proof (intro conjI impI)
  show "expectedStatusCode [] (Some r) w =
     (Return (Some r, Some (Error (''unexpected status code: '' @ formatInt (StatusCode r)))), w)"
    by (simp add: expectedStatusCode_def)
next
  assume a: "New copts = Return cl \<and>
    ((ExpectedStatusCode [] :: 'w opt) \<in> set copts \<or> ExpectedStatusCode [] \<in> set opts)"
  then have new: "New copts = Return cl"
    and given: "Interceptors None (Some (expectedStatusCode [])) \<in> set copts \<or>
                Interceptors None (Some (expectedStatusCode [])) \<in> set opts"
    by (simp_all add: ExpectedStatusCode_def WithResponseInterceptorFunc_def)
  from new have "resInterceptors cl = List.map_filter responseOnly copts"
    by (simp add: New_sequences)
  with given have "expectedStatusCode [] \<in> set (responseCapable opts @ resInterceptors cl)"
    by (auto dest: responseOnly_member responseCapable_member)
  then have "fst (invokeInOrder (responseCapable opts @ resInterceptors cl) x v) \<noteq>
             Return (res, None)" for x v
    by (rule invokeInOrder_member_fails) (rule expectedStatusCode_empty_fails)
  then have "invokeInOrder (responseCapable opts @ resInterceptors cl) x v \<noteq>
             (Return (res, None), v')" for x v v'
    by (metis fst_conv)
  then show "fst (Do httpDo cl req opts w) \<noteq> Return (res, None)"
    unfolding Do_pipeline
    by (auto split: prod.splits outcome.splits option.splits)
qed

text \<open>
  The interceptor on a response with status 200, and two recorded calls with a transport
  that answers: one with \<open>ExpectedStatusCode()\<close> given to \<open>New\<close>, one with it given to the
  call. Both end with the error that names the status code \<open>0\<close> of the transport's answer.
\<close>

theorem ExpectedStatusCode_empty_rejects_witness:
  "expectedStatusCode []
      (Some \<lparr>StatusCode = 200, ResponseHeader = Map.empty, ResponseBody = None\<rparr>) ([] :: string list) =
     (Return (Some \<lparr>StatusCode = 200, ResponseHeader = Map.empty, ResponseBody = None\<rparr>,
              Some (Error ''unexpected status code: 200'')), [])
   \<and>
   New [WithTransport (Some loggingTransport), ExpectedStatusCode []] =
     Return \<lparr>c = \<lparr>Transport = Some loggingTransport\<rparr>, reqInterceptors = [],
             resInterceptors = [expectedStatusCode []]\<rparr>
   \<and>
   fst (Do testDo
          \<lparr>c = \<lparr>Transport = Some loggingTransport\<rparr>, reqInterceptors = [],
           resInterceptors = [expectedStatusCode []]\<rparr>
          (Some (testRequest ''GET'')) [] []) \<noteq>
     Return (Some \<lparr>StatusCode = 0, ResponseHeader = Map.empty,
                    ResponseBody = Some loggingBody\<rparr>, None)
   \<and>
   Do testDo
      \<lparr>c = \<lparr>Transport = Some loggingTransport\<rparr>, reqInterceptors = [],
       resInterceptors = [expectedStatusCode []]\<rparr>
      (Some (testRequest ''GET'')) [] [] =
     (Return (Some \<lparr>StatusCode = 0, ResponseHeader = Map.empty,
                      ResponseBody = Some loggingBody\<rparr>,
              Some (Error ''unexpected status code: 0'')),
      [''transport GET'', ''close''])
   \<and>
   fst (Do testDo
          \<lparr>c = \<lparr>Transport = Some loggingTransport\<rparr>, reqInterceptors = [],
           resInterceptors = []\<rparr>
          (Some (testRequest ''GET'')) [ExpectedStatusCode []] []) \<noteq>
     Return (Some \<lparr>StatusCode = 0, ResponseHeader = Map.empty,
                    ResponseBody = Some loggingBody\<rparr>, None)"
proof -
  let ?h = "\<lparr>Transport = Some loggingTransport\<rparr>"
  let ?res = "\<lparr>StatusCode = 0, ResponseHeader = Map.empty, ResponseBody = Some loggingBody\<rparr>"
  have n1: "New [WithTransport (Some loggingTransport), ExpectedStatusCode []] =
              Return \<lparr>c = ?h, reqInterceptors = [], resInterceptors = [expectedStatusCode []]\<rparr>"
    by (simp add: New_def WithTransport_def ExpectedStatusCode_def WithResponseInterceptorFunc_def)
  have n2: "New [WithTransport (Some loggingTransport)] =
              Return \<lparr>c = ?h, reqInterceptors = ([] :: string list RequestInterceptor list),
                      resInterceptors = []\<rparr>"
    by (simp add: New_def WithTransport_def)
  have a: "expectedStatusCode []
      (Some \<lparr>StatusCode = 200, ResponseHeader = Map.empty, ResponseBody = None\<rparr>) ([] :: string list) =
     (Return (Some \<lparr>StatusCode = 200, ResponseHeader = Map.empty, ResponseBody = None\<rparr>,
              Some (Error ''unexpected status code: 200'')), [])"
    using ExpectedStatusCode_empty_rejects [where w = "[] :: string list"
        and r = "\<lparr>StatusCode = 200, ResponseHeader = Map.empty, ResponseBody = None\<rparr>",
        THEN conjunct1]
    by (simp add: formatInt_def formatNat.simps digitChar_def)
  have b: "fst (Do testDo \<lparr>c = ?h, reqInterceptors = [], resInterceptors = [expectedStatusCode []]\<rparr>
                 (Some (testRequest ''GET'')) [] []) \<noteq> Return (Some ?res, None)"
    using ExpectedStatusCode_empty_rejects [where w = "[] :: string list"
        and copts = "[WithTransport (Some loggingTransport), ExpectedStatusCode []]"
        and opts = "[]" and httpDo = testDo and req = "Some (testRequest ''GET'')"
        and res = "Some ?res"
        and cl = "\<lparr>c = ?h, reqInterceptors = [], resInterceptors = [expectedStatusCode []]\<rparr>",
        THEN conjunct2] n1
    by simp
  have c: "fst (Do testDo \<lparr>c = ?h, reqInterceptors = [], resInterceptors = []\<rparr>
                 (Some (testRequest ''GET'')) [ExpectedStatusCode []] []) \<noteq> Return (Some ?res, None)"
    using ExpectedStatusCode_empty_rejects [where w = "[] :: string list"
        and copts = "[WithTransport (Some loggingTransport)]"
        and opts = "[ExpectedStatusCode []]" and httpDo = testDo
        and req = "Some (testRequest ''GET'')" and res = "Some ?res"
        and cl = "\<lparr>c = ?h, reqInterceptors = [], resInterceptors = []\<rparr>",
        THEN conjunct2] n2
    by simp
  have d: "Do testDo \<lparr>c = ?h, reqInterceptors = [], resInterceptors = [expectedStatusCode []]\<rparr>
             (Some (testRequest ''GET'')) [] [] =
           (Return (Some ?res, Some (Error ''unexpected status code: 0'')),
            [''transport GET'', ''close''])"
    by (simp add: Do_def Do_afterDefer_def expectedStatusCode_def test_defs formatInt_def
        formatNat.simps digitChar_def)
  from a b c d n1 show ?thesis by simp
qed

end
